theory Spec2Isabelle
  imports Complex_Main "HOL-Library.Multiset"
begin

section \<open>Land inventory: the data model of schema.sql\<close>

text \<open>
  The program is the PL/pgSQL of \<^verbatim>\<open>schema.sql\<close>. A table is the list of its rows. SQL
  gives the rows of a query without \<^verbatim>\<open>ORDER BY\<close> no order: where the order of rows shows
  in a result (the arrays that \<^verbatim>\<open>jsonb_agg\<close> builds), it is the choice of the executor,
  a parameter of the model (\<open>row_order\<close> below). A nullable
  column is an \<open>option\<close> (\<open>None\<close> is SQL NULL), \<^verbatim>\<open>UUID\<close> values are natural numbers,
  \<^verbatim>\<open>NUMERIC\<close> values are rationals, timestamps are natural numbers, and \<^verbatim>\<open>NOW()\<close> is an
  argument of every statement that reads the clock.
  Outside the model: the length limits of \<^verbatim>\<open>VARCHAR(n)\<close> (a text column holds any
  string), the tables \<^verbatim>\<open>properties\<close> and \<^verbatim>\<open>users\<close> and the foreign keys into them, and
  concurrent sessions.
\<close>

type_synonym uuid = nat
type_synonym timestamptz = nat
type_synonym numeric = rat

datatype sqlstate =
    not_null_violation
  | unique_violation
  | check_violation
  | invalid_text_representation
  | invalid_parameter_value
  | numeric_value_out_of_range
  | undefined_table
  | undefined_column
  | undefined_function
  | raise_exception string

record land_block =
  lb_id :: uuid
  lb_property_id :: "uuid option"
  lb_name :: string
  lb_description :: "string option"
  lb_created_at :: timestamptz
  lb_updated_at :: timestamptz

record land_plot =
  lp_id :: uuid
  lp_block_id :: "uuid option"
  lp_plot_number :: string
  lp_area :: numeric
  lp_price :: string
  lp_status :: "string option"
  lp_description :: "string option"
  lp_created_at :: timestamptz
  lp_updated_at :: timestamptz

text \<open>The audit table, as the trigger writes it (schema.sql 1990-1998): the identifier,
  the plot reference, the two statuses and the time; the actor and the reason are columns
  the trigger leaves NULL.\<close>

record status_history =
  h_id :: uuid
  h_plot_id :: "uuid option"
  h_old_status :: "string option"
  h_new_status :: string
  h_changed_by :: "string option"
  h_change_reason :: "string option"
  h_changed_at :: "timestamptz option"

text \<open>What is left of the audit table after schema drift: the trigger function handles a
  missing table (\<^verbatim>\<open>undefined_table\<close>) and missing columns (\<^verbatim>\<open>undefined_column\<close>).\<close>

datatype history_relation = HistoryReady | HistoryTableMissing | HistoryColumnsMissing

record property_plot =
  pp_id :: uuid
  pp_property_id :: "uuid option"
  pp_plot_number :: string
  pp_area :: "numeric option"
  pp_price :: "string option"
  pp_status :: "string option"
  pp_booked_by :: "uuid option"
  pp_booked_at :: "timestamptz option"
  pp_created_at :: timestamptz
  pp_updated_at :: timestamptz

datatype jsonb =
    JNull
  | JBool bool
  | JNum numeric
  | JStr string
  | JArr "jsonb list"
  | JObj "(string \<times> jsonb) list"

record land_configuration =
  c_id :: uuid
  c_property_id :: "uuid option"
  c_configuration_name :: string
  c_blocks_data :: jsonb
  c_is_active :: "bool option"
  c_created_at :: timestamptz
  c_updated_at :: timestamptz

text \<open>The database: the tables the land inventory functions read and write, the state of
  \<^verbatim>\<open>uuid_generate_v4()\<close> (a counter: every call returns an identifier never returned
  before) and the messages raised with \<^verbatim>\<open>RAISE NOTICE\<close>.\<close>

record database =
  land_blocks :: "land_block list"
  land_plots :: "land_plot list"
  history_schema :: history_relation
  land_plot_status_history :: "status_history list"
  property_land_configurations :: "land_configuration list"
  property_plots :: "property_plot list"
  uuid_counter :: uuid
  notices :: "string list"

text \<open>PostgreSQL's own input and output functions, which the schema calls and does not
  define, are parameters: the text of a \<^verbatim>\<open>NUMERIC\<close> and its parser, the text of a
  \<^verbatim>\<open>JSONB\<close> array or object, and the text of a \<^verbatim>\<open>UUID\<close>. So is the executor's choice
  of the order in which the rows of a query without \<^verbatim>\<open>ORDER BY\<close> reach an aggregate:
  \<open>row_order\<close> takes the values of the rows, listed as the tables hold them, to the list in
  which the aggregate receives them. It depends on the plan (a hash join or a hash
  aggregate does not keep the order of a scan) and on where the rows lie in the heap
  (an \<^verbatim>\<open>UPDATE\<close> moves a row).\<close>

record pg_env =
  numeric_in :: "string \<Rightarrow> numeric option"
  numeric_out :: "numeric \<Rightarrow> string"
  jsonb_out :: "jsonb \<Rightarrow> string"
  uuid_out :: "uuid \<Rightarrow> string"
  row_order :: "jsonb list \<Rightarrow> jsonb list"

text \<open>A call of a function is one statement, and a statement is atomic: none of the
  functions commits or rolls back by itself, and when the statement raises, PostgreSQL
  undoes all it did. The body of a function is a step from a database to an error or to a
  result with the next database; the statement around it keeps the old database on an
  error.\<close>

definition statement_atomic ::
  "(database \<Rightarrow> sqlstate + 'a \<times> database) \<Rightarrow> database \<Rightarrow> (sqlstate + 'a) \<times> database" where
  "statement_atomic body db =
     (case body db of Inl e \<Rightarrow> (Inl e, db) | Inr (v, db') \<Rightarrow> (Inr v, db'))"

definition uuid_generate_v4 :: "database \<Rightarrow> uuid \<times> database" where
  "uuid_generate_v4 db = (uuid_counter db, db\<lparr>uuid_counter := Suc (uuid_counter db)\<rparr>)"

subsection \<open>SQL aggregates and NULL\<close>

definition coalesce :: "'a option \<Rightarrow> 'a \<Rightarrow> 'a" where
  "coalesce v d = (case v of None \<Rightarrow> d | Some x \<Rightarrow> x)"

definition non_null :: "'a option list \<Rightarrow> 'a list" where
  "non_null vs = concat (map (\<lambda>v. case v of None \<Rightarrow> [] | Some x \<Rightarrow> [x]) vs)"

definition sql_count :: "'a option list \<Rightarrow> int" where
  "sql_count vs = int (length (non_null vs))"

definition sql_count_distinct :: "'a option list \<Rightarrow> int" where
  "sql_count_distinct vs = int (length (remdups (non_null vs)))"

definition sql_sum :: "numeric option list \<Rightarrow> numeric option" where
  "sql_sum vs = (case non_null vs of [] \<Rightarrow> None | x # xs \<Rightarrow> Some (sum_list (x # xs)))"

text \<open>\<^verbatim>\<open>AVG\<close> is given as the exact quotient; PostgreSQL rounds it to the scale of a
  \<^verbatim>\<open>NUMERIC\<close>.\<close>

definition sql_avg :: "numeric option list \<Rightarrow> numeric option" where
  "sql_avg vs =
     (case non_null vs of [] \<Rightarrow> None
      | x # xs \<Rightarrow> Some (sum_list (x # xs) / of_nat (length (x # xs))))"

definition sql_min :: "('a::linorder) option list \<Rightarrow> 'a option" where
  "sql_min vs = (case non_null vs of [] \<Rightarrow> None | x # xs \<Rightarrow> Some (fold min xs x))"

definition sql_max :: "('a::linorder) option list \<Rightarrow> 'a option" where
  "sql_max vs = (case non_null vs of [] \<Rightarrow> None | x # xs \<Rightarrow> Some (fold max xs x))"

text \<open>\<^verbatim>\<open>a = b\<close> in a \<^verbatim>\<open>WHERE\<close> or \<^verbatim>\<open>ON\<close> clause: true only when both sides are
  non-null and equal.\<close>

definition sql_eq :: "'a option \<Rightarrow> 'a option \<Rightarrow> bool" where
  "sql_eq a b = (case (a, b) of (Some x, Some y) \<Rightarrow> x = y | _ \<Rightarrow> False)"

subsection \<open>get_property_land_statistics (schema.sql 191-221)\<close>

record land_statistics =
  total_blocks :: int
  total_plots :: int
  available_plots :: int
  booked_plots :: int
  sold_plots :: int
  reserved_plots :: int
  total_area :: numeric
  average_plot_size :: numeric
  min_plot_size :: numeric
  max_plot_size :: numeric

text \<open>\<^verbatim>\<open>land_blocks blocks LEFT JOIN land_plots plots ON blocks.id = plots.block_id\<close>:
  a block without plots gives one row whose plot columns are all NULL.\<close>

definition blocks_left_join_plots ::
  "land_block list \<Rightarrow> land_plot list \<Rightarrow> (land_block \<times> land_plot option) list" where
  "blocks_left_join_plots blocks plots =
     concat (map (\<lambda>b.
       case filter (\<lambda>p. sql_eq (Some (lb_id b)) (lp_block_id p)) plots of
         [] \<Rightarrow> [(b, None)]
       | p # ps \<Rightarrow> map (\<lambda>q. (b, Some q)) (p # ps)) blocks)"

text \<open>\<^verbatim>\<open>COUNT(CASE WHEN plots.status = s THEN 1 END)\<close>: the \<^verbatim>\<open>CASE\<close> is NULL on the
  rows that do not qualify, and \<^verbatim>\<open>COUNT\<close> skips NULLs.\<close>

definition status_case :: "string \<Rightarrow> land_plot option \<Rightarrow> int option" where
  "status_case s p =
     (if sql_eq (Option.bind p lp_status) (Some s) then Some 1 else None)"

definition get_property_land_statistics ::
  "database \<Rightarrow> uuid option \<Rightarrow> land_statistics" where
  "get_property_land_statistics db input_property_id =
     (let rows = filter (\<lambda>(b, p). sql_eq (lb_property_id b) input_property_id)
                   (blocks_left_join_plots (land_blocks db) (land_plots db));
          areas = map (\<lambda>(b, p). map_option lp_area p) rows
      in \<lparr> total_blocks = sql_count_distinct (map (\<lambda>(b, p). Some (lb_id b)) rows),
           total_plots = sql_count (map (\<lambda>(b, p). map_option lp_id p) rows),
           available_plots = sql_count (map (\<lambda>(b, p). status_case ''available'' p) rows),
           booked_plots = sql_count (map (\<lambda>(b, p). status_case ''booked'' p) rows),
           sold_plots = sql_count (map (\<lambda>(b, p). status_case ''sold'' p) rows),
           reserved_plots = sql_count (map (\<lambda>(b, p). status_case ''reserved'' p) rows),
           total_area = coalesce (sql_sum areas) 0,
           average_plot_size = coalesce (sql_avg areas) 0,
           min_plot_size = coalesce (sql_min areas) 0,
           max_plot_size = coalesce (sql_max areas) 0 \<rparr>)"

subsection \<open>get_next_plot_number (schema.sql 224-248)\<close>

definition is_digit :: "char \<Rightarrow> bool" where
  "is_digit c = (c \<in> set ''0123456789'')"

definition digit_val :: "char \<Rightarrow> nat" where
  "digit_val c =
     (case map_of (zip ''0123456789'' [0, 1, 2, 3, 4, 5, 6, 7, 8, 9]) c of
        None \<Rightarrow> 0 | Some d \<Rightarrow> d)"

definition digits_to_nat :: "string \<Rightarrow> nat" where
  "digits_to_nat s = foldl (\<lambda>n c. 10 * n + digit_val c) 0 s"

definition digit_char :: "nat \<Rightarrow> char" where
  "digit_char d = ''0123456789'' ! d"

fun nat_to_digits :: "nat \<Rightarrow> string" where
  "nat_to_digits n =
     (if n < 10 then [digit_char n] else nat_to_digits (n div 10) @ [digit_char (n mod 10)])"

declare nat_to_digits.simps [simp del]

text \<open>\<^verbatim>\<open>plot_number ~ ('^' || plot_prefix || '\d+$')\<close>, for a prefix that holds no
  metacharacter of regular expressions (such as the default \<^verbatim>\<open>'P'\<close>): the prefix,
  then one digit or more, then the end of the string.\<close>

definition matches_prefix_digits :: "string \<Rightarrow> string \<Rightarrow> bool" where
  "matches_prefix_digits plot_prefix s =
     (take (length plot_prefix) s = plot_prefix
      \<and> drop (length plot_prefix) s \<noteq> []
      \<and> list_all is_digit (drop (length plot_prefix) s))"

text \<open>\<^verbatim>\<open>SUBSTRING(s FROM k)\<close> with \<open>k \<ge> 1\<close>: the string from its \<open>k\<close>-th character on.\<close>

definition substring_from :: "string \<Rightarrow> nat \<Rightarrow> string" where
  "substring_from s k = drop (k - 1) s"

text \<open>The cast \<^verbatim>\<open>::INTEGER\<close> of a string of digits: out of range above \<open>2\<^sup>3\<^sup>1 - 1\<close>.\<close>

definition int4_max :: int where
  "int4_max = 2147483647"

definition int4_of_digits :: "string \<Rightarrow> sqlstate + int" where
  "int4_of_digits s =
     (if int (digits_to_nat s) > int4_max then Inl numeric_value_out_of_range
      else Inr (int (digits_to_nat s)))"

definition int4_pl :: "int \<Rightarrow> int \<Rightarrow> sqlstate + int" where
  "int4_pl a b =
     (if a + b > int4_max \<or> a + b < - int4_max - 1 then Inl numeric_value_out_of_range
      else Inr (a + b))"

definition int4_out :: "int \<Rightarrow> string" where
  "int4_out i = (if i < 0 then CHR ''-'' # nat_to_digits (nat (- i)) else nat_to_digits (nat i))"

text \<open>\<^verbatim>\<open>LPAD(s, n, fill)\<close>: a string longer than \<open>n\<close> is cut to its first \<open>n\<close>
  characters; a shorter one gets copies of \<open>fill\<close> in front.\<close>

definition lpad :: "string \<Rightarrow> nat \<Rightarrow> string \<Rightarrow> string" where
  "lpad s n fill =
     (let s1 = take n s; m = n - length s1
      in if fill = [] then s1 else take m (concat (replicate m fill)) @ s1)"

fun collect :: "(sqlstate + 'a) list \<Rightarrow> sqlstate + 'a list" where
  "collect [] = Inr []"
| "collect (x # xs) =
     (case x of Inl e \<Rightarrow> Inl e
      | Inr v \<Rightarrow> (case collect xs of Inl e \<Rightarrow> Inl e | Inr vs \<Rightarrow> Inr (v # vs)))"

definition get_next_plot_number ::
  "database \<Rightarrow> uuid \<Rightarrow> string \<Rightarrow> sqlstate + string" where
  "get_next_plot_number db input_block_id plot_prefix =
     (case collect (map (\<lambda>p.
              if matches_prefix_digits plot_prefix (lp_plot_number p)
              then int4_of_digits (substring_from (lp_plot_number p) (length plot_prefix + 1))
              else Inr 0)
            (filter (\<lambda>p. sql_eq (lp_block_id p) (Some input_block_id)) (land_plots db))) of
        Inl e \<Rightarrow> Inl e
      | Inr nums \<Rightarrow>
          (case int4_pl (coalesce (sql_max (map Some nums)) 0) 1 of
             Inl e \<Rightarrow> Inl e
           | Inr next_num \<Rightarrow> Inr (plot_prefix @ lpad (int4_out next_num) 3 ''0'')))"

subsection \<open>update_plot_booking (schema.sql 889-916)\<close>

text \<open>The \<^verbatim>\<open>UPDATE property_plots ... WHERE id = p_plot_id\<close> of the function, with the
  number of rows it changed (\<^verbatim>\<open>ROW_COUNT\<close>). The table is \<^verbatim>\<open>property_plots\<close>, which has
  no trigger.\<close>

definition update_plot_booking_update ::
  "timestamptz \<Rightarrow> uuid \<Rightarrow> string option \<Rightarrow> uuid option \<Rightarrow> database \<Rightarrow> int \<times> database" where
  "update_plot_booking_update now p_plot_id p_status p_user_id db =
     (int (length (filter (\<lambda>r. pp_id r = p_plot_id) (property_plots db))),
      db\<lparr>property_plots :=
           map (\<lambda>r. if pp_id r = p_plot_id
                     then r\<lparr> pp_status := p_status,
                            pp_booked_by :=
                              (if sql_eq p_status (Some ''booked'') then p_user_id
                               else if sql_eq p_status (Some ''sold'') then p_user_id
                               else None),
                            pp_booked_at :=
                              (if sql_eq p_status (Some ''booked'') \<or> sql_eq p_status (Some ''sold'')
                               then Some now else None),
                            pp_updated_at := now \<rparr>
                     else r)
             (property_plots db)\<rparr>)"

text \<open>\<^verbatim>\<open>GET DIAGNOSTICS v_success = ROW_COUNT\<close> stores a \<^verbatim>\<open>BIGINT\<close> in a variable
  declared \<^verbatim>\<open>BOOLEAN\<close>. PL/pgSQL converts through the text of the number: \<^verbatim>\<open>'0'\<close> reads
  as false, \<^verbatim>\<open>'1'\<close> as true, and any other count is not the text of a boolean.\<close>

definition bool_of_row_count :: "int \<Rightarrow> sqlstate + bool" where
  "bool_of_row_count n =
     (if n = 0 then Inr False else if n = 1 then Inr True else Inl invalid_text_representation)"

text \<open>\<^verbatim>\<open>RETURN v_success > 0\<close> compares a \<^verbatim>\<open>BOOLEAN\<close> with an \<^verbatim>\<open>INTEGER\<close>. PostgreSQL has
  no operator \<^verbatim>\<open>boolean > integer\<close> and no implicit cast between the two types, so the
  expression raises \<^verbatim>\<open>undefined_function\<close> when it is evaluated, whatever the values.\<close>

definition boolean_gt_integer :: "bool \<Rightarrow> int \<Rightarrow> sqlstate + bool" where
  "boolean_gt_integer b i = Inl undefined_function"

definition update_plot_booking ::
  "timestamptz \<Rightarrow> uuid \<Rightarrow> string option \<Rightarrow> uuid option \<Rightarrow> database
     \<Rightarrow> sqlstate + bool \<times> database" where
  "update_plot_booking now p_plot_id p_status p_user_id db =
     (case update_plot_booking_update now p_plot_id p_status p_user_id db of
        (row_count, db') \<Rightarrow>
          (case bool_of_row_count row_count of
             Inl e \<Rightarrow> Inl e
           | Inr v_success \<Rightarrow>
               (case boolean_gt_integer v_success 0 of
                  Inl e \<Rightarrow> Inl e
                | Inr r \<Rightarrow> Inr (r, db'))))"

subsection \<open>The status tracker: track_plot_status_changes (schema.sql 2454-2498)\<close>

datatype tg_op = TG_INSERT | TG_UPDATE | TG_DELETE

text \<open>\<^verbatim>\<open>INSERT INTO land_plot_status_history (plot_id, old_status, new_status, changed_at)\<close>:
  it needs the table and its columns, and \<^verbatim>\<open>new_status\<close> is \<^verbatim>\<open>NOT NULL\<close>.\<close>

definition insert_status_history ::
  "uuid option \<Rightarrow> string option \<Rightarrow> string option \<Rightarrow> timestamptz option \<Rightarrow> database
     \<Rightarrow> sqlstate + database" where
  "insert_status_history plot_id old_status new_status changed_at db =
     (case history_schema db of
        HistoryTableMissing \<Rightarrow> Inl undefined_table
      | HistoryColumnsMissing \<Rightarrow> Inl undefined_column
      | HistoryReady \<Rightarrow>
          (case new_status of
             None \<Rightarrow> Inl not_null_violation
           | Some s \<Rightarrow>
               (case uuid_generate_v4 db of
                  (new_id, db') \<Rightarrow>
                    Inr (db'\<lparr>land_plot_status_history :=
                           land_plot_status_history db' @
                             [\<lparr> h_id = new_id, h_plot_id = plot_id, h_old_status = old_status,
                                h_new_status = s, h_changed_by = None, h_change_reason = None,
                                h_changed_at = changed_at \<rparr>]\<rparr>))))"

text \<open>\<^verbatim>\<open>SQLERRM\<close>, given as the name of the condition.\<close>

fun sqlerrm :: "sqlstate \<Rightarrow> string" where
  "sqlerrm not_null_violation = ''not_null_violation''"
| "sqlerrm unique_violation = ''unique_violation''"
| "sqlerrm check_violation = ''check_violation''"
| "sqlerrm invalid_text_representation = ''invalid_text_representation''"
| "sqlerrm invalid_parameter_value = ''invalid_parameter_value''"
| "sqlerrm numeric_value_out_of_range = ''numeric_value_out_of_range''"
| "sqlerrm undefined_table = ''undefined_table''"
| "sqlerrm undefined_column = ''undefined_column''"
| "sqlerrm undefined_function = ''undefined_function''"
| "sqlerrm (raise_exception m) = m"

definition raise_notice :: "string \<Rightarrow> database \<Rightarrow> database" where
  "raise_notice m db = db\<lparr>notices := notices db @ [m]\<rparr>"

text \<open>The trigger function. Its inner \<^verbatim>\<open>BEGIN ... EXCEPTION ... END\<close> block undoes what the
  block did when it catches an exception, raises a notice, and the function goes on to
  \<^verbatim>\<open>RETURN NEW\<close>: the result is always a database, never an error.
  \<^verbatim>\<open>a IS DISTINCT FROM b\<close> is inequality where NULL is a value.\<close>

definition track_plot_status_changes ::
  "tg_op \<Rightarrow> land_plot \<Rightarrow> land_plot \<Rightarrow> timestamptz \<Rightarrow> database \<Rightarrow> database" where
  "track_plot_status_changes op old new now db =
     (if op \<noteq> TG_UPDATE then db
      else if lp_status old \<noteq> None \<or> lp_status new \<noteq> None then
        (if lp_status old \<noteq> lp_status new then
           (case insert_status_history (Some (lp_id new)) (lp_status old) (lp_status new)
                   (Some now) db of
              Inr db' \<Rightarrow> db'
            | Inl undefined_table \<Rightarrow>
                raise_notice
                  ''WARNING: land_plot_status_history table not found, skipping status tracking'' db
            | Inl undefined_column \<Rightarrow>
                raise_notice
                  ''WARNING: Required columns not found in status history table, skipping tracking'' db
            | Inl e \<Rightarrow> raise_notice (''WARNING: Status tracking failed: '' @ sqlerrm e) db)
         else db)
      else db)"

subsection \<open>Statements on land_plots and land_blocks\<close>

text \<open>The constraints of \<^verbatim>\<open>land_plots\<close> (schema.sql 2649, 2659-2660). A \<^verbatim>\<open>CHECK\<close> passes
  when its condition is NULL.\<close>

definition check_plot_area_positive :: "numeric \<Rightarrow> bool" where
  "check_plot_area_positive a = (a > 0)"

definition check_plot_status_valid :: "string option \<Rightarrow> bool" where
  "check_plot_status_valid s =
     (case s of None \<Rightarrow> True
      | Some v \<Rightarrow> v \<in> set [''available'', ''booked'', ''sold'', ''reserved'', ''blocked''])"

text \<open>\<^verbatim>\<open>UPDATE land_plots SET status = new_status WHERE id = plot_id\<close>, with the triggers
  of the table: \<^verbatim>\<open>update_land_plots_updated_at\<close> before each row (schema.sql 1172-1203)
  and \<^verbatim>\<open>track_land_plot_status_changes\<close> after each row (schema.sql 2560-2563).
  The result is the number of rows changed.\<close>

definition update_land_plot_status ::
  "timestamptz \<Rightarrow> uuid \<Rightarrow> string option \<Rightarrow> database \<Rightarrow> sqlstate + nat \<times> database" where
  "update_land_plot_status now plot_id new_status db =
     (let olds = filter (\<lambda>p. lp_id p = plot_id) (land_plots db);
          new = (\<lambda>p. p\<lparr>lp_status := new_status, lp_updated_at := now\<rparr>)
      in if olds \<noteq> [] \<and> \<not> check_plot_status_valid new_status then Inl check_violation
         else Inr (length olds,
                   fold (\<lambda>old. track_plot_status_changes TG_UPDATE old (new old) now) olds
                     (db\<lparr>land_plots :=
                          map (\<lambda>p. if lp_id p = plot_id then new p else p) (land_plots db)\<rparr>)))"

text \<open>\<^verbatim>\<open>DELETE FROM land_plots WHERE ...\<close>. The audit rows reference the plot with
  \<^verbatim>\<open>REFERENCES land_plots(id) ON DELETE CASCADE\<close> (schema.sql 1237, 1992): they are deleted
  with it.\<close>

definition delete_land_plots :: "(land_plot \<Rightarrow> bool) \<Rightarrow> database \<Rightarrow> database" where
  "delete_land_plots cond db =
     (let gone = map lp_id (filter cond (land_plots db))
      in db\<lparr> land_plots := filter (\<lambda>p. \<not> cond p) (land_plots db),
             land_plot_status_history :=
               filter (\<lambda>h. case h_plot_id h of None \<Rightarrow> True | Some i \<Rightarrow> i \<notin> set gone)
                 (land_plot_status_history db) \<rparr>)"

text \<open>\<^verbatim>\<open>DELETE FROM land_blocks WHERE ...\<close>; the plots reference the block with
  \<^verbatim>\<open>ON DELETE CASCADE\<close> (schema.sql 1137).\<close>

definition delete_land_blocks :: "(land_block \<Rightarrow> bool) \<Rightarrow> database \<Rightarrow> database" where
  "delete_land_blocks cond db =
     (let gone = map lb_id (filter cond (land_blocks db));
          db1 = delete_land_plots
                  (\<lambda>p. case lp_block_id p of None \<Rightarrow> False | Some b \<Rightarrow> b \<in> set gone) db
      in db1\<lparr>land_blocks := filter (\<lambda>b. \<not> cond b) (land_blocks db1)\<rparr>)"

text \<open>The constraints of an \<^verbatim>\<open>INSERT INTO land_blocks (property_id, name, description)\<close>:
  \<^verbatim>\<open>name\<close> is \<^verbatim>\<open>NOT NULL\<close>, and \<^verbatim>\<open>idx_land_blocks_unique_name_per_property\<close> is a
  unique index on \<^verbatim>\<open>(property_id, LOWER(name))\<close>, in which NULLs never collide.
  \<^verbatim>\<open>LOWER\<close> is given on the ASCII letters.\<close>

definition lower_char :: "char \<Rightarrow> char" where
  "lower_char c =
     (case map_of (zip ''ABCDEFGHIJKLMNOPQRSTUVWXYZ'' ''abcdefghijklmnopqrstuvwxyz'') c of
        None \<Rightarrow> c | Some l \<Rightarrow> l)"

definition lower :: "string \<Rightarrow> string" where
  "lower s = map lower_char s"

definition insert_land_block ::
  "timestamptz \<Rightarrow> uuid option \<Rightarrow> string option \<Rightarrow> string option \<Rightarrow> database
     \<Rightarrow> sqlstate + uuid \<times> database" where
  "insert_land_block now property_id name description db =
     (case name of
        None \<Rightarrow> Inl not_null_violation
      | Some n \<Rightarrow>
          if list_ex (\<lambda>b. sql_eq (lb_property_id b) property_id \<and> lower (lb_name b) = lower n)
               (land_blocks db)
          then Inl unique_violation
          else (case uuid_generate_v4 db of
                  (new_id, db') \<Rightarrow>
                    Inr (new_id,
                         db'\<lparr>land_blocks :=
                              land_blocks db' @
                                [\<lparr> lb_id = new_id, lb_property_id = property_id, lb_name = n,
                                   lb_description = description, lb_created_at = now,
                                   lb_updated_at = now \<rparr>]\<rparr>)))"

text \<open>\<^verbatim>\<open>INSERT INTO land_plots (block_id, plot_number, area, price, status, description)\<close>:
  the \<^verbatim>\<open>NOT NULL\<close> columns, then the \<^verbatim>\<open>CHECK\<close> constraints, then the unique index
  \<^verbatim>\<open>idx_land_plots_unique_plot_per_block\<close> on \<^verbatim>\<open>(block_id, LOWER(plot_number))\<close>.
  A status given as NULL stays NULL: the column default is for a column left out.\<close>

definition insert_land_plot ::
  "timestamptz \<Rightarrow> uuid option \<Rightarrow> string option \<Rightarrow> numeric option \<Rightarrow> string option
     \<Rightarrow> string option \<Rightarrow> string option \<Rightarrow> database \<Rightarrow> sqlstate + database" where
  "insert_land_plot now block_id plot_number area price status description db =
     (case (plot_number, area, price) of
        (Some n, Some a, Some pr) \<Rightarrow>
          if \<not> check_plot_area_positive a \<or> \<not> check_plot_status_valid status
          then Inl check_violation
          else if list_ex (\<lambda>p. sql_eq (lp_block_id p) block_id
                                \<and> lower (lp_plot_number p) = lower n) (land_plots db)
          then Inl unique_violation
          else (case uuid_generate_v4 db of
                  (new_id, db') \<Rightarrow>
                    Inr (db'\<lparr>land_plots :=
                              land_plots db' @
                                [\<lparr> lp_id = new_id, lp_block_id = block_id, lp_plot_number = n,
                                   lp_area = a, lp_price = pr, lp_status = status,
                                   lp_description = description, lp_created_at = now,
                                   lp_updated_at = now \<rparr>]\<rparr>))
      | _ \<Rightarrow> Inl not_null_violation)"

subsection \<open>JSONB\<close>

text \<open>\<^verbatim>\<open>j -> key\<close>: the member of an object, NULL for a missing key and for a value that is
  not an object. A JSONB object holds each key once.\<close>

definition jsonb_field :: "jsonb \<Rightarrow> string \<Rightarrow> jsonb option" where
  "jsonb_field j k = (case j of JObj kvs \<Rightarrow> map_of kvs k | _ \<Rightarrow> None)"

text \<open>The text of a JSONB value, as \<^verbatim>\<open>->>\<close> gives it: a JSON null is SQL NULL, a string is
  its content, anything else is its printed form.\<close>

definition jsonb_text :: "pg_env \<Rightarrow> jsonb \<Rightarrow> string option" where
  "jsonb_text env v =
     (case v of
        JNull \<Rightarrow> None
      | JStr s \<Rightarrow> Some s
      | JNum a \<Rightarrow> Some (numeric_out env a)
      | JBool b \<Rightarrow> Some (if b then ''true'' else ''false'')
      | _ \<Rightarrow> Some (jsonb_out env v))"

definition jsonb_field_text :: "pg_env \<Rightarrow> jsonb \<Rightarrow> string \<Rightarrow> string option" where
  "jsonb_field_text env j k = Option.bind (jsonb_field j k) (jsonb_text env)"

text \<open>\<^verbatim>\<open>jsonb_array_elements\<close>: no row for SQL NULL (the function is strict), the elements of
  an array, and an error for any other value.\<close>

definition jsonb_array_elements :: "jsonb option \<Rightarrow> sqlstate + jsonb list" where
  "jsonb_array_elements j =
     (case j of
        None \<Rightarrow> Inr []
      | Some (JArr xs) \<Rightarrow> Inr xs
      | Some _ \<Rightarrow> Inl invalid_parameter_value)"

text \<open>The cast \<^verbatim>\<open>(t)::NUMERIC\<close> of a text.\<close>

definition cast_numeric :: "pg_env \<Rightarrow> string option \<Rightarrow> sqlstate + numeric option" where
  "cast_numeric env t =
     (case t of
        None \<Rightarrow> Inr None
      | Some s \<Rightarrow>
          (case numeric_in env s of
             None \<Rightarrow> Inl invalid_text_representation
           | Some a \<Rightarrow> Inr (Some a)))"

text \<open>\<^verbatim>\<open>jsonb_agg(v)\<close> without \<^verbatim>\<open>ORDER BY\<close>: NULL over no row, else the array of the
  values in the order in which the executor hands the rows over.\<close>

definition jsonb_agg :: "pg_env \<Rightarrow> jsonb list \<Rightarrow> jsonb option" where
  "jsonb_agg env vs = (case vs of [] \<Rightarrow> None | x # xs \<Rightarrow> Some (JArr (row_order env (x # xs))))"

definition to_jsonb_text :: "string option \<Rightarrow> jsonb" where
  "to_jsonb_text t = (case t of None \<Rightarrow> JNull | Some s \<Rightarrow> JStr s)"

subsection \<open>create_property_land_configuration (schema.sql 1306-1365)\<close>

definition plot_object :: "pg_env \<Rightarrow> land_plot \<Rightarrow> jsonb" where
  "plot_object env lp =
     JObj [(''id'', JStr (uuid_out env (lp_id lp))),
           (''plot_number'', JStr (lp_plot_number lp)),
           (''area'', JNum (lp_area lp)),
           (''price'', JStr (lp_price lp)),
           (''status'', to_jsonb_text (lp_status lp)),
           (''description'', to_jsonb_text (lp_description lp))]"

text \<open>The subquery \<^verbatim>\<open>plots_data\<close>: one row for each \<^verbatim>\<open>block_id\<close> of \<^verbatim>\<open>land_plots\<close>, with
  the array of the plots of the group, in the order of \<open>row_order\<close>. The groups have each
  key once and are read by key only (the join below), so the order of the groups shows
  nowhere.\<close>

definition plots_data :: "pg_env \<Rightarrow> database \<Rightarrow> (uuid option \<times> jsonb option) list" where
  "plots_data env db =
     map (\<lambda>k. (k, jsonb_agg env (map (plot_object env)
                                  (filter (\<lambda>lp. lp_block_id lp = k) (land_plots db)))))
       (remdups (map lp_block_id (land_plots db)))"




text \<open>\<^verbatim>\<open>INSERT INTO property_land_configurations (property_id, configuration_name,
  blocks_data, is_active)\<close>: the name is \<^verbatim>\<open>NOT NULL\<close>, and
  \<^verbatim>\<open>idx_property_land_configurations_unique_active\<close> (schema.sql 1269-1270) is a unique
  index on \<^verbatim>\<open>property_id\<close> over the rows \<^verbatim>\<open>WHERE is_active = TRUE\<close>.\<close>

definition insert_configuration ::
  "timestamptz \<Rightarrow> uuid option \<Rightarrow> string option \<Rightarrow> jsonb \<Rightarrow> bool option \<Rightarrow> database
     \<Rightarrow> sqlstate + uuid \<times> database" where
  "insert_configuration now property_id configuration_name blocks_data is_active db =
     (case configuration_name of
        None \<Rightarrow> Inl not_null_violation
      | Some n \<Rightarrow>
          if is_active = Some True
             \<and> list_ex (\<lambda>c. sql_eq (c_property_id c) property_id \<and> c_is_active c = Some True)
                 (property_land_configurations db)
          then Inl unique_violation
          else (case uuid_generate_v4 db of
                  (new_id, db') \<Rightarrow>
                    Inr (new_id,
                         db'\<lparr>property_land_configurations :=
                              property_land_configurations db' @
                                [\<lparr> c_id = new_id, c_property_id = property_id,
                                   c_configuration_name = n, c_blocks_data = blocks_data,
                                   c_is_active = is_active, c_created_at = now,
                                   c_updated_at = now \<rparr>]\<rparr>)))"


subsection \<open>apply_property_land_configuration (schema.sql 1368-1427)\<close>

fun apply_plots ::
  "pg_env \<Rightarrow> timestamptz \<Rightarrow> uuid \<Rightarrow> jsonb list \<Rightarrow> database \<Rightarrow> sqlstate + database" where
  "apply_plots env now new_block_id [] db = Inr db"
| "apply_plots env now new_block_id (plot_data # rest) db =
     (case cast_numeric env (jsonb_field_text env plot_data ''area'') of
        Inl e \<Rightarrow> Inl e
      | Inr area \<Rightarrow>
          (case insert_land_plot now (Some new_block_id)
                  (jsonb_field_text env plot_data ''plot_number'')
                  area
                  (jsonb_field_text env plot_data ''price'')
                  (jsonb_field_text env plot_data ''status'')
                  (jsonb_field_text env plot_data ''description'') db of
             Inl e \<Rightarrow> Inl e
           | Inr db' \<Rightarrow> apply_plots env now new_block_id rest db'))"

fun apply_blocks ::
  "pg_env \<Rightarrow> timestamptz \<Rightarrow> uuid option \<Rightarrow> jsonb list \<Rightarrow> database \<Rightarrow> sqlstate + database" where
  "apply_blocks env now property_id_val [] db = Inr db"
| "apply_blocks env now property_id_val (block_data # rest) db =
     (case insert_land_block now property_id_val
             (jsonb_field_text env block_data ''name'')
             (jsonb_field_text env block_data ''description'') db of
        Inl e \<Rightarrow> Inl e
      | Inr (new_block_id, db1) \<Rightarrow>
          (case jsonb_array_elements (jsonb_field block_data ''plots'') of
             Inl e \<Rightarrow> Inl e
           | Inr plots \<Rightarrow>
               (case apply_plots env now new_block_id plots db1 of
                  Inl e \<Rightarrow> Inl e
                | Inr db2 \<Rightarrow> apply_blocks env now property_id_val rest db2)))"

text \<open>The two deletes of the function (schema.sql 1392-1396): the plots of the blocks of
  the property, then the blocks of the property.\<close>

definition clear_property_inventory :: "uuid option \<Rightarrow> database \<Rightarrow> database" where
  "clear_property_inventory property_id_val db =
     delete_land_blocks (\<lambda>lb. sql_eq (lb_property_id lb) property_id_val)
       (delete_land_plots
          (\<lambda>p. case lp_block_id p of None \<Rightarrow> False
                | Some b \<Rightarrow>
                    b \<in> set (map lb_id
                      (filter (\<lambda>lb. sql_eq (lb_property_id lb) property_id_val)
                         (land_blocks db)))) db)"

definition apply_property_land_configuration ::
  "pg_env \<Rightarrow> timestamptz \<Rightarrow> uuid \<Rightarrow> database \<Rightarrow> sqlstate + bool \<times> database" where
  "apply_property_land_configuration env now p_configuration_id db =
     (case find (\<lambda>c. c_id c = p_configuration_id \<and> c_is_active c = Some True)
             (property_land_configurations db) of
        None \<Rightarrow> Inl (raise_exception ''Configuration not found or not active'')
      | Some config_record \<Rightarrow>
          (let property_id_val = c_property_id config_record;
               blocks_json = c_blocks_data config_record;
               db1 = clear_property_inventory property_id_val db
           in case jsonb_array_elements (Some blocks_json) of
                Inl e \<Rightarrow> Inl e
              | Inr blocks \<Rightarrow>
                  (case apply_blocks env now property_id_val blocks db1 of
                     Inl e \<Rightarrow> Inl e
                   | Inr db2 \<Rightarrow> Inr (True, db2))))"

subsection \<open>duplicate_property_land_configuration (schema.sql 1430-1463)\<close>

definition duplicate_property_land_configuration ::
  "timestamptz \<Rightarrow> uuid \<Rightarrow> string option \<Rightarrow> database \<Rightarrow> sqlstate + uuid \<times> database" where
  "duplicate_property_land_configuration now p_source_config_id p_new_name db =
     (case find (\<lambda>c. c_id c = p_source_config_id) (property_land_configurations db) of
        None \<Rightarrow> Inl (raise_exception ''Source configuration not found'')
      | Some source_config \<Rightarrow>
          insert_configuration now (c_property_id source_config) p_new_name
            (c_blocks_data source_config) (Some False) db)"

subsection \<open>Sequences of operations, and what the claims compare\<close>




text \<open>The configurations of the property \<open>P\<close> whose active flag is true.\<close>

definition active_configurations :: "database \<Rightarrow> uuid \<Rightarrow> land_configuration list" where
  "active_configurations db P =
     filter (\<lambda>c. c_property_id c = Some P \<and> c_is_active c = Some True)
       (property_land_configurations db)"








definition is_text_or_null :: "jsonb \<Rightarrow> bool" where
  "is_text_or_null v = (case v of JStr s \<Rightarrow> True | JNull \<Rightarrow> True | _ \<Rightarrow> False)"











subsection \<open>Rows and databases of the worked examples\<close>

definition empty_database :: database where
  "empty_database =
     \<lparr> land_blocks = [], land_plots = [], history_schema = HistoryReady,
       land_plot_status_history = [], property_land_configurations = [],
       property_plots = [], uuid_counter = 0, notices = [] \<rparr>"

definition block_row :: "uuid \<Rightarrow> uuid \<Rightarrow> string \<Rightarrow> land_block" where
  "block_row i p n =
     \<lparr> lb_id = i, lb_property_id = Some p, lb_name = n, lb_description = None,
       lb_created_at = 0, lb_updated_at = 0 \<rparr>"

definition plot_row :: "uuid \<Rightarrow> uuid \<Rightarrow> string \<Rightarrow> numeric \<Rightarrow> string \<Rightarrow> land_plot" where
  "plot_row i b n a s =
     \<lparr> lp_id = i, lp_block_id = Some b, lp_plot_number = n, lp_area = a,
       lp_price = ''15 lakhs'', lp_status = Some s, lp_description = None,
       lp_created_at = 0, lp_updated_at = 0 \<rparr>"

definition history_row :: "uuid \<Rightarrow> uuid \<Rightarrow> string \<Rightarrow> string \<Rightarrow> status_history" where
  "history_row i p old new =
     \<lparr> h_id = i, h_plot_id = Some p, h_old_status = Some old, h_new_status = new,
       h_changed_by = None, h_change_reason = None, h_changed_at = Some 0 \<rparr>"

text \<open>Block 7 of property 1 with the plots P001 (sold) and P002 (booked), and one audit
  row for each plot.\<close>

definition audited_inventory :: database where
  "audited_inventory =
     empty_database
       \<lparr> land_blocks := [block_row 7 1 ''Block A''],
         land_plots := [plot_row 1 7 ''P001'' 1200 ''sold'', plot_row 2 7 ''P002'' 1500 ''booked''],
         land_plot_status_history :=
           [history_row 3 1 ''available'' ''sold'', history_row 4 2 ''available'' ''booked''],
         uuid_counter := 8 \<rparr>"

definition property_plot_row :: "uuid \<Rightarrow> uuid \<Rightarrow> string \<Rightarrow> string \<Rightarrow> property_plot" where
  "property_plot_row i p n s =
     \<lparr> pp_id = i, pp_property_id = Some p, pp_plot_number = n, pp_area = Some 1200,
       pp_price = Some ''15 lakhs'', pp_status = Some s, pp_booked_by = None,
       pp_booked_at = None, pp_created_at = 0, pp_updated_at = 0 \<rparr>"

text \<open>Property 1 with the plot 5 of \<^verbatim>\<open>property_plots\<close>, available.\<close>

definition booking_inventory :: database where
  "booking_inventory =
     empty_database\<lparr> property_plots := [property_plot_row 5 1 ''P001'' ''available''],
                      uuid_counter := 6 \<rparr>"

text \<open>An instance of the input and output functions for the examples: the
  \<^verbatim>\<open>NUMERIC\<close> values that are natural numbers, and the identifiers, in decimal digits;
  an executor that hands the rows to an aggregate last row first.\<close>

definition digits_to_numeric :: "string \<Rightarrow> numeric" where
  "digits_to_numeric s = foldl (\<lambda>a c. 10 * a + of_nat (digit_val c)) 0 s"

definition digits_env :: pg_env where
  "digits_env =
     \<lparr> numeric_in = (\<lambda>s. if s \<noteq> [] \<and> list_all is_digit s
                          then Some (digits_to_numeric s) else None),
       numeric_out = (\<lambda>a. nat_to_digits (nat \<lfloor>a\<rfloor>)),
       jsonb_out = (\<lambda>j. []),
       uuid_out = nat_to_digits,
       row_order = rev \<rparr>"

definition configuration_row ::
  "uuid \<Rightarrow> uuid \<Rightarrow> string \<Rightarrow> jsonb \<Rightarrow> bool \<Rightarrow> land_configuration" where
  "configuration_row i p n j a =
     \<lparr> c_id = i, c_property_id = Some p, c_configuration_name = n, c_blocks_data = j,
       c_is_active = Some a, c_created_at = 0, c_updated_at = 0 \<rparr>"

text \<open>A payload: Block A with the plots P001 (available, 1200) and P002 (booked, 1500).\<close>

definition block_a_payload :: jsonb where
  "block_a_payload =
     JArr [JObj [(''name'', JStr ''Block A''), (''description'', JNull),
                 (''plots'',
                  JArr [JObj [(''plot_number'', JStr ''P001''), (''area'', JNum 1200),
                              (''price'', JStr ''15 lakhs''), (''status'', JStr ''available''),
                              (''description'', JNull)],
                        JObj [(''plot_number'', JStr ''P002''), (''area'', JNum 1500),
                              (''price'', JStr ''18 lakhs''), (''status'', JStr ''booked''),
                              (''description'', JStr ''corner plot'')]])]]"

text \<open>A payload with two blocks of the same name, which the unique index on
  \<^verbatim>\<open>(property_id, LOWER(name))\<close> rejects.\<close>

definition twin_blocks_payload :: jsonb where
  "twin_blocks_payload =
     JArr [JObj [(''name'', JStr ''Block 1''), (''description'', JNull), (''plots'', JArr [])],
           JObj [(''name'', JStr ''Block 1''), (''description'', JNull), (''plots'', JArr [])]]"

text \<open>Property 1 with the block 7 and its two plots in the live inventory, the active
  configuration 20 (\<open>block_a_payload\<close>) and the inactive configuration 21.\<close>

definition configured_inventory :: database where
  "configured_inventory =
     audited_inventory
       \<lparr> property_land_configurations :=
           [configuration_row 20 1 ''Phase 1 Layout'' block_a_payload True,
            configuration_row 21 1 ''Copy of Phase 1'' block_a_payload False],
         uuid_counter := 30 \<rparr>"

text \<open>The same inventory, where the only configuration is active and holds
  \<open>twin_blocks_payload\<close>.\<close>

definition twin_inventory :: database where
  "twin_inventory =
     audited_inventory
       \<lparr> property_land_configurations :=
           [configuration_row 20 1 ''Master Plan'' twin_blocks_payload True],
         uuid_counter := 30 \<rparr>"



section \<open>Properties\<close>

subsection \<open>Statistics\<close>

lemma filter_blocks_left_join_plots:
  "filter (\<lambda>(b, p). Q b) (blocks_left_join_plots blocks plots)
     = blocks_left_join_plots (filter Q blocks) plots"
  by (induction blocks) (auto simp: blocks_left_join_plots_def split: list.splits)

lemma blocks_left_join_no_plots:
  "\<forall>b\<in>set blocks. \<forall>p\<in>set plots. \<not> sql_eq (Some (lb_id b)) (lp_block_id p)
   \<Longrightarrow> blocks_left_join_plots blocks plots = map (\<lambda>b. (b, None)) blocks"
  by (induction blocks) (auto simp: blocks_left_join_plots_def filter_empty_conv split: list.splits)

lemma non_null_map_None [simp]: "non_null (map (\<lambda>x. None) xs) = []"
  by (induction xs) (auto simp: non_null_def)

lemma non_null_map_Some [simp]: "non_null (map (\<lambda>x. Some (f x)) xs) = map f xs"
  by (induction xs) (auto simp: non_null_def)

text \<open>
  C10. \<^verbatim>\<open>get_property_land_statistics\<close> is a total function: none of its aggregates can
  raise, so its result is a row of statistics for every database and every property. For
  a property without blocks every count and every area statistic is zero. For a property
  whose blocks have no plot, the plot counts and the area statistics are zero, and
  \<open>total_blocks\<close> is the number of its blocks.
\<close>

theorem get_property_land_statistics_zero:
  "(filter (\<lambda>b. sql_eq (lb_property_id b) (Some P)) (land_blocks db) = [] \<longrightarrow>
      get_property_land_statistics db (Some P) =
        \<lparr> total_blocks = 0, total_plots = 0, available_plots = 0, booked_plots = 0,
          sold_plots = 0, reserved_plots = 0, total_area = 0, average_plot_size = 0,
          min_plot_size = 0, max_plot_size = 0 \<rparr>)
   \<and> ((\<forall>b\<in>set (land_blocks db). sql_eq (lb_property_id b) (Some P) \<longrightarrow>
          (\<forall>p\<in>set (land_plots db). \<not> sql_eq (Some (lb_id b)) (lp_block_id p))) \<longrightarrow>
      get_property_land_statistics db (Some P) =
        \<lparr> total_blocks =
            int (length (remdups (map lb_id
              (filter (\<lambda>b. sql_eq (lb_property_id b) (Some P)) (land_blocks db))))),
          total_plots = 0, available_plots = 0, booked_plots = 0,
          sold_plots = 0, reserved_plots = 0, total_area = 0, average_plot_size = 0,
          min_plot_size = 0, max_plot_size = 0 \<rparr>)"
proof (intro conjI impI)
  assume e: "filter (\<lambda>b. sql_eq (lb_property_id b) (Some P)) (land_blocks db) = []"
  have "filter (\<lambda>(b, p). sql_eq (lb_property_id b) (Some P))
          (blocks_left_join_plots (land_blocks db) (land_plots db)) = []"
    unfolding filter_blocks_left_join_plots e by (simp add: blocks_left_join_plots_def)
  then show "get_property_land_statistics db (Some P) =
        \<lparr> total_blocks = 0, total_plots = 0, available_plots = 0, booked_plots = 0,
          sold_plots = 0, reserved_plots = 0, total_area = 0, average_plot_size = 0,
          min_plot_size = 0, max_plot_size = 0 \<rparr>"
    by (simp add: get_property_land_statistics_def sql_count_def sql_count_distinct_def
        sql_sum_def sql_avg_def sql_min_def sql_max_def coalesce_def non_null_def)
next
  let ?bs = "filter (\<lambda>b. sql_eq (lb_property_id b) (Some P)) (land_blocks db)"
  assume n: "\<forall>b\<in>set (land_blocks db). sql_eq (lb_property_id b) (Some P) \<longrightarrow>
          (\<forall>p\<in>set (land_plots db). \<not> sql_eq (Some (lb_id b)) (lp_block_id p))"
  then have "\<forall>b\<in>set ?bs. \<forall>p\<in>set (land_plots db). \<not> sql_eq (Some (lb_id b)) (lp_block_id p)"
    by simp
  then have j: "blocks_left_join_plots ?bs (land_plots db) = map (\<lambda>b. (b, None)) ?bs"
    by (rule blocks_left_join_no_plots)
  have r: "filter (\<lambda>(b, p). sql_eq (lb_property_id b) (Some P))
             (blocks_left_join_plots (land_blocks db) (land_plots db))
      = map (\<lambda>b. (b, None)) ?bs"
    by (simp only: filter_blocks_left_join_plots j)
  show "get_property_land_statistics db (Some P) =
        \<lparr> total_blocks = int (length (remdups (map lb_id ?bs))),
          total_plots = 0, available_plots = 0, booked_plots = 0,
          sold_plots = 0, reserved_plots = 0, total_area = 0, average_plot_size = 0,
          min_plot_size = 0, max_plot_size = 0 \<rparr>"
    unfolding get_property_land_statistics_def r
    by (simp add: sql_count_def sql_count_distinct_def o_def status_case_def sql_eq_def
        sql_sum_def sql_avg_def sql_min_def sql_max_def coalesce_def)
qed

text \<open>The theorem at two databases: one without any block, and one where property 1 has
  the block 7 and no plot.\<close>

theorem get_property_land_statistics_zero_witness:
  "filter (\<lambda>b. sql_eq (lb_property_id b) (Some 1)) (land_blocks empty_database) = []
   \<and> total_blocks (get_property_land_statistics empty_database (Some 1)) = 0
   \<and> total_area (get_property_land_statistics empty_database (Some 1)) = 0
   \<and> total_blocks (get_property_land_statistics
        (empty_database\<lparr>land_blocks := [block_row 7 1 ''Block A'']\<rparr>) (Some 1)) = 1
   \<and> total_plots (get_property_land_statistics
        (empty_database\<lparr>land_blocks := [block_row 7 1 ''Block A'']\<rparr>) (Some 1)) = 0
   \<and> average_plot_size (get_property_land_statistics
        (empty_database\<lparr>land_blocks := [block_row 7 1 ''Block A'']\<rparr>) (Some 1)) = 0"
  using get_property_land_statistics_zero [of 1 empty_database]
    get_property_land_statistics_zero
      [of 1 "empty_database\<lparr>land_blocks := [block_row 7 1 ''Block A'']\<rparr>"]
  by (simp add: empty_database_def block_row_def sql_eq_def)

subsection \<open>Plot numbering\<close>

text \<open>
  C4. \<^verbatim>\<open>get_next_plot_number\<close> on a block whose highest plot number is P999, with the
  prefix \<^verbatim>\<open>'P'\<close>: the next number is 1000, and \<^verbatim>\<open>LPAD('1000', 3, '0')\<close> cuts it to its
  first three characters. The function returns P100, not P1000.
\<close>

theorem get_next_plot_number_after_P999:
  "get_next_plot_number
     (empty_database\<lparr>land_plots := [plot_row 1 7 ''P999'' 1200 ''available'']\<rparr>) 7 ''P''
   = Inr ''P100''"
  by code_simp

subsection \<open>Deleting a plot\<close>

text \<open>
  C8 (as amended). Deleting an existing plot \<open>p\<close> deletes the plot and, through
  \<^verbatim>\<open>ON DELETE CASCADE\<close>, every audit row that references \<open>p\<close>; the audit rows of the other
  plots, and those without a plot reference, stay as they are.
\<close>

theorem delete_plot_cascades_to_history:
  "p \<in> set (map lp_id (land_plots db)) \<Longrightarrow>
   land_plots (delete_land_plots (\<lambda>r. lp_id r = p) db)
     = filter (\<lambda>r. lp_id r \<noteq> p) (land_plots db)
   \<and> land_plot_status_history (delete_land_plots (\<lambda>r. lp_id r = p) db)
     = filter (\<lambda>h. h_plot_id h \<noteq> Some p) (land_plot_status_history db)"
proof -
  assume "p \<in> set (map lp_id (land_plots db))"
  then have s: "set (map lp_id (filter (\<lambda>r. lp_id r = p) (land_plots db))) = {p}"
    by auto
  show ?thesis
    unfolding delete_land_plots_def Let_def s
    by (auto intro!: filter_cong split: option.splits)
qed

theorem delete_plot_cascades_to_history_witness:
  "1 \<in> set (map lp_id (land_plots audited_inventory))
   \<and> land_plots (delete_land_plots (\<lambda>r. lp_id r = 1) audited_inventory)
       = [plot_row 2 7 ''P002'' 1500 ''booked'']
   \<and> land_plot_status_history (delete_land_plots (\<lambda>r. lp_id r = 1) audited_inventory)
       = [history_row 4 2 ''available'' ''booked'']"
  using delete_plot_cascades_to_history [of 1 audited_inventory]
  by (simp add: audited_inventory_def empty_database_def plot_row_def history_row_def)

text \<open>The claim as the specification states it fails: plot 1 has the audit row 3, and
  after the plot is deleted no audit row of plot 1 is left (none with a null reference
  either).\<close>

theorem history_preserved_counterexample:
  "filter (\<lambda>h. h_plot_id h = Some 1) (land_plot_status_history audited_inventory)
     = [history_row 3 1 ''available'' ''sold'']
   \<and> land_plot_status_history (delete_land_plots (\<lambda>r. lp_id r = 1) audited_inventory)
     = [history_row 4 2 ''available'' ''booked'']"
  by (simp add: delete_land_plots_def audited_inventory_def empty_database_def plot_row_def
      history_row_def)

subsection \<open>The status tracker\<close>

lemma track_land_plots [simp]:
  "land_plots (track_plot_status_changes op old new now db) = land_plots db"
  by (auto simp: track_plot_status_changes_def insert_status_history_def uuid_generate_v4_def
      raise_notice_def split: sum.splits sqlstate.splits history_relation.splits option.splits)

lemma fold_track_land_plots [simp]:
  "land_plots (fold (\<lambda>old. track_plot_status_changes op old (f old) now) olds db) = land_plots db"
  by (induction olds arbitrary: db) auto

text \<open>When the audit row cannot be written, the trigger leaves the audit table alone and
  raises one notice if the status changed, none otherwise.\<close>

lemma track_failing:
  assumes "history_schema db \<noteq> HistoryReady \<or> lp_status new = None"
  shows "land_plot_status_history (track_plot_status_changes TG_UPDATE old new now db)
           = land_plot_status_history db
         \<and> history_schema (track_plot_status_changes TG_UPDATE old new now db) = history_schema db
         \<and> length (notices (track_plot_status_changes TG_UPDATE old new now db))
           = length (notices db) + (if lp_status old \<noteq> lp_status new then 1 else 0)"
  using assms
  by (cases "history_schema db")
     (auto simp: track_plot_status_changes_def insert_status_history_def raise_notice_def)

lemma fold_track_failing:
  assumes "history_schema db \<noteq> HistoryReady \<or> s = None"
  shows "land_plot_status_history
           (fold (\<lambda>old. track_plot_status_changes TG_UPDATE old
                           (old\<lparr>lp_status := s, lp_updated_at := now\<rparr>) now) olds db)
           = land_plot_status_history db
         \<and> history_schema
           (fold (\<lambda>old. track_plot_status_changes TG_UPDATE old
                           (old\<lparr>lp_status := s, lp_updated_at := now\<rparr>) now) olds db)
           = history_schema db
         \<and> length (notices
           (fold (\<lambda>old. track_plot_status_changes TG_UPDATE old
                           (old\<lparr>lp_status := s, lp_updated_at := now\<rparr>) now) olds db))
           = length (notices db) + length (filter (\<lambda>p. lp_status p \<noteq> s) olds)"
  using assms
proof (induction olds arbitrary: db)
  case Nil
  then show ?case by simp
next
  case (Cons old olds)
  let ?new = "old\<lparr>lp_status := s, lp_updated_at := now\<rparr>"
  let ?db1 = "track_plot_status_changes TG_UPDATE old ?new now db"
  have f: "history_schema db \<noteq> HistoryReady \<or> lp_status ?new = None"
    using Cons.prems by simp
  note t = track_failing [OF f, of old now]
  have "history_schema ?db1 \<noteq> HistoryReady \<or> s = None"
    using Cons.prems t by simp
  from Cons.IH [OF this] t show ?case by simp
qed

lemma insert_status_history_fails:
  "insert_status_history p old new_status t db = Inl e
   \<Longrightarrow> history_schema db \<noteq> HistoryReady \<or> new_status = None"
  by (auto simp: insert_status_history_def uuid_generate_v4_def
      split: history_relation.splits option.splits)

lemma update_with_failing_tracker:
  assumes "check_plot_status_valid new_status"
      and "history_schema db \<noteq> HistoryReady \<or> new_status = None"
  shows "\<exists>db'. update_land_plot_status now plot_id new_status db
             = Inr (length (filter (\<lambda>p. lp_id p = plot_id) (land_plots db)), db')
           \<and> land_plots db'
             = map (\<lambda>p. if lp_id p = plot_id
                         then p\<lparr>lp_status := new_status, lp_updated_at := now\<rparr> else p)
                 (land_plots db)
           \<and> land_plot_status_history db' = land_plot_status_history db
           \<and> length (notices db')
             = length (notices db)
               + length (filter (\<lambda>p. lp_id p = plot_id \<and> lp_status p \<noteq> new_status)
                           (land_plots db))"
proof -
  let ?db1 = "db\<lparr>land_plots :=
                  map (\<lambda>p. if lp_id p = plot_id
                            then p\<lparr>lp_status := new_status, lp_updated_at := now\<rparr> else p)
                    (land_plots db)\<rparr>"
  have "history_schema ?db1 \<noteq> HistoryReady \<or> new_status = None"
    using assms(2) by simp
  note f = fold_track_failing [OF this, of now "filter (\<lambda>p. lp_id p = plot_id) (land_plots db)"]
  show ?thesis
    using assms(1) f
    by (simp add: update_land_plot_status_def Let_def conj_commute)
qed

text \<open>
  C6. Take a status update of \<^verbatim>\<open>land_plots\<close> that the table accepts, in a database where
  writing the audit row fails (the audit table is missing, its columns are missing, or
  the insert fails for another reason: the new status is NULL and \<^verbatim>\<open>new_status\<close> is
  \<^verbatim>\<open>NOT NULL\<close>). The update still succeeds: the statement returns its row count, every
  row of the plot has the new status, the audit table is as it was, and the trigger has
  raised one notice for each row whose status changed. No error reaches the caller.
\<close>

theorem tracker_failure_is_swallowed:
  assumes "check_plot_status_valid new_status"
      and "insert_status_history p old new_status t db = Inl e"
  shows "\<exists>db'. update_land_plot_status now plot_id new_status db
             = Inr (length (filter (\<lambda>p. lp_id p = plot_id) (land_plots db)), db')
           \<and> land_plots db'
             = map (\<lambda>p. if lp_id p = plot_id
                         then p\<lparr>lp_status := new_status, lp_updated_at := now\<rparr> else p)
                 (land_plots db)
           \<and> land_plot_status_history db' = land_plot_status_history db
           \<and> length (notices db')
             = length (notices db)
               + length (filter (\<lambda>p. lp_id p = plot_id \<and> lp_status p \<noteq> new_status)
                           (land_plots db))"
  by (rule update_with_failing_tracker [OF assms(1) insert_status_history_fails [OF assms(2)]])

text \<open>The theorem at the update of the plot 2 from booked to sold, where the audit table
  has lost its columns.\<close>

theorem tracker_failure_is_swallowed_witness:
  "check_plot_status_valid (Some ''sold'')
   \<and> insert_status_history (Some 2) (Some ''booked'') (Some ''sold'') (Some 5)
       (audited_inventory\<lparr>history_schema := HistoryColumnsMissing\<rparr>) = Inl undefined_column
   \<and> (\<exists>db'. update_land_plot_status 5 2 (Some ''sold'')
               (audited_inventory\<lparr>history_schema := HistoryColumnsMissing\<rparr>) = Inr (1, db')
         \<and> map lp_status (land_plots db') = [Some ''sold'', Some ''sold'']
         \<and> land_plot_status_history db' = land_plot_status_history audited_inventory
         \<and> length (notices db') = 1)"
proof -
  let ?db = "audited_inventory\<lparr>history_schema := HistoryColumnsMissing\<rparr>"
  have v: "check_plot_status_valid (Some ''sold'')"
    by (simp add: check_plot_status_valid_def)
  have h: "insert_status_history (Some 2) (Some ''booked'') (Some ''sold'') (Some 5) ?db
             = Inl undefined_column"
    by (simp add: insert_status_history_def)
  from tracker_failure_is_swallowed [OF v h, of 5 2]
  obtain db' where
    "update_land_plot_status 5 2 (Some ''sold'') ?db
       = Inr (length (filter (\<lambda>p. lp_id p = 2) (land_plots ?db)), db')"
    "land_plots db'
       = map (\<lambda>p. if lp_id p = 2 then p\<lparr>lp_status := Some ''sold'', lp_updated_at := 5\<rparr> else p)
           (land_plots ?db)"
    "land_plot_status_history db' = land_plot_status_history ?db"
    "length (notices db')
       = length (notices ?db)
         + length (filter (\<lambda>p. lp_id p = 2 \<and> lp_status p \<noteq> Some ''sold'') (land_plots ?db))"
    by blast
  then have
    "update_land_plot_status 5 2 (Some ''sold'') ?db = Inr (1, db')
     \<and> map lp_status (land_plots db') = [Some ''sold'', Some ''sold'']
     \<and> land_plot_status_history db' = land_plot_status_history audited_inventory
     \<and> length (notices db') = 1"
    by (simp add: audited_inventory_def empty_database_def plot_row_def)
  then show ?thesis using v h by auto
qed

text \<open>
  C7 (as amended). When the audit table is in place and the new status is not NULL, a
  status update of the plot \<open>plot_id\<close> appends exactly one audit row, with the old status,
  the new status and the time, if the stored status differs from the new one, and appends
  none if the status stays the same.
\<close>

theorem history_entry_iff_status_changes:
  assumes ready: "history_schema db = HistoryReady"
      and valid: "check_plot_status_valid (Some s)"
      and row: "filter (\<lambda>p. lp_id p = plot_id) (land_plots db) = [old]"
  shows "\<exists>db'. update_land_plot_status now plot_id (Some s) db = Inr (1, db')
           \<and> land_plot_status_history db'
             = (if lp_status old \<noteq> Some s
                then land_plot_status_history db @
                       [\<lparr> h_id = uuid_counter db, h_plot_id = Some plot_id,
                          h_old_status = lp_status old, h_new_status = s,
                          h_changed_by = None, h_change_reason = None,
                          h_changed_at = Some now \<rparr>]
                else land_plot_status_history db)"
proof -
  have "old \<in> set (filter (\<lambda>p. lp_id p = plot_id) (land_plots db))"
    by (simp add: row)
  then have i: "lp_id old = plot_id" by simp
  show ?thesis
    using ready valid i
    by (simp add: update_land_plot_status_def row track_plot_status_changes_def
        insert_status_history_def uuid_generate_v4_def Let_def)
qed

theorem history_entry_iff_status_changes_witness:
  "history_schema audited_inventory = HistoryReady
   \<and> check_plot_status_valid (Some ''sold'')
   \<and> filter (\<lambda>p. lp_id p = 2) (land_plots audited_inventory)
       = [plot_row 2 7 ''P002'' 1500 ''booked'']
   \<and> (\<exists>db'. update_land_plot_status 5 2 (Some ''sold'') audited_inventory = Inr (1, db')
         \<and> land_plot_status_history db'
           = [history_row 3 1 ''available'' ''sold'', history_row 4 2 ''available'' ''booked'',
              \<lparr> h_id = 8, h_plot_id = Some 2, h_old_status = Some ''booked'',
                h_new_status = ''sold'', h_changed_by = None, h_change_reason = None,
                h_changed_at = Some 5 \<rparr>])
   \<and> (\<exists>db'. update_land_plot_status 5 2 (Some ''booked'') audited_inventory = Inr (1, db')
         \<and> land_plot_status_history db'
           = [history_row 3 1 ''available'' ''sold'', history_row 4 2 ''available'' ''booked''])"
  using history_entry_iff_status_changes
          [of audited_inventory "''sold''" 2 "plot_row 2 7 ''P002'' 1500 ''booked''" 5]
        history_entry_iff_status_changes
          [of audited_inventory "''booked''" 2 "plot_row 2 7 ''P002'' 1500 ''booked''" 5]
  by (simp add: audited_inventory_def empty_database_def plot_row_def check_plot_status_valid_def)

text \<open>Two updates that change the status and leave no audit row: the audit table is
  missing; the new status is NULL.\<close>

theorem history_entry_iff_status_changes_counterexample:
  "map_sum id (\<lambda>(n, db'). (n, map lp_status (land_plots db'), land_plot_status_history db'))
     (update_land_plot_status 5 2 (Some ''sold'')
        (empty_database\<lparr> land_plots := [plot_row 2 7 ''P002'' 1500 ''booked''],
                          history_schema := HistoryTableMissing \<rparr>))
     = Inr (1, [Some ''sold''], [])
   \<and> map_sum id (\<lambda>(n, db'). (n, map lp_status (land_plots db'), land_plot_status_history db'))
     (update_land_plot_status 5 2 None
        (empty_database\<lparr> land_plots := [plot_row 2 7 ''P002'' 1500 ''booked''] \<rparr>))
     = Inr (1, [None], [])"
  by (simp add: update_land_plot_status_def track_plot_status_changes_def
      insert_status_history_def raise_notice_def empty_database_def plot_row_def
      check_plot_status_valid_def Let_def)

subsection \<open>Booking a plot\<close>

text \<open>
  C5. The specification has \<^verbatim>\<open>update_plot_booking(p, 'sold', u)\<close> on an available plot
  \<open>p\<close> set the status to sold, record \<open>u\<close> and a booking time, return true, and leave one
  audit row. The code does none of it. At plot 5 of \<open>booking_inventory\<close> (available) and
  user 2 the call raises \<^verbatim>\<open>undefined_function\<close>: \<^verbatim>\<open>v_success\<close> is a \<^verbatim>\<open>BOOLEAN\<close> and
  \<^verbatim>\<open>RETURN v_success > 0\<close> compares it with an integer. The statement is undone, so the
  plot is still available with no booking user and no booking time, nothing is returned,
  and the audit table is empty. The same holds at every input: no call of the function
  returns, and every call leaves the database as it was.
\<close>

theorem update_plot_booking_sold_raises:
  "statement_atomic (update_plot_booking 9 5 (Some ''sold'') (Some 2)) booking_inventory
     = (Inl undefined_function, booking_inventory)
   \<and> map (\<lambda>r. (pp_id r, pp_status r, pp_booked_by r, pp_booked_at r))
         (property_plots
            (snd (statement_atomic (update_plot_booking 9 5 (Some ''sold'') (Some 2))
               booking_inventory)))
     = [(5, Some ''available'', None, None)]
   \<and> land_plot_status_history
         (snd (statement_atomic (update_plot_booking 9 5 (Some ''sold'') (Some 2))
            booking_inventory)) = []
   \<and> (\<forall>now p s u db. \<exists>e. statement_atomic (update_plot_booking now p s u) db = (Inl e, db))"
proof -
  have all: "\<exists>e. statement_atomic (update_plot_booking now p s u) db = (Inl e, db)"
    for now p s u db
    by (simp add: statement_atomic_def update_plot_booking_def update_plot_booking_update_def
        bool_of_row_count_def boolean_gt_integer_def)
  have at: "statement_atomic (update_plot_booking 9 5 (Some ''sold'') (Some 2)) booking_inventory
              = (Inl undefined_function, booking_inventory)"
    by (simp add: statement_atomic_def update_plot_booking_def update_plot_booking_update_def
        bool_of_row_count_def boolean_gt_integer_def booking_inventory_def empty_database_def
        property_plot_row_def)
  have rows: "map (\<lambda>r. (pp_id r, pp_status r, pp_booked_by r, pp_booked_at r))
                (property_plots booking_inventory) = [(5, Some ''available'', None, None)]"
    "land_plot_status_history booking_inventory = []"
    by (simp_all add: booking_inventory_def empty_database_def property_plot_row_def)
  from all at rows show ?thesis
    by simp
qed

subsection \<open>Applying and saving configurations\<close>

lemma delete_land_plots_configurations [simp]:
  "property_land_configurations (delete_land_plots cond db) = property_land_configurations db"
  by (simp add: delete_land_plots_def Let_def)

lemma delete_land_blocks_configurations [simp]:
  "property_land_configurations (delete_land_blocks cond db) = property_land_configurations db"
  by (simp add: delete_land_blocks_def Let_def)

text \<open>What a successful insert does: the new row is at the end of its table and the
  counter has moved by one.\<close>

lemma insert_land_block_Inr:
  assumes "insert_land_block now P n d db = Inr (i, db')"
  shows "i = uuid_counter db \<and>
         (\<exists>name. n = Some name \<and>
            db' = db\<lparr> land_blocks :=
                        land_blocks db @
                          [\<lparr> lb_id = uuid_counter db, lb_property_id = P, lb_name = name,
                             lb_description = d, lb_created_at = now, lb_updated_at = now \<rparr>],
                      uuid_counter := Suc (uuid_counter db) \<rparr>)"
  using assms
  by (auto simp: insert_land_block_def uuid_generate_v4_def split: option.splits if_splits)

lemma insert_land_plot_Inr:
  assumes "insert_land_plot now b n a pr s d db = Inr db'"
  shows "\<exists>n' a' pr'. n = Some n' \<and> a = Some a' \<and> pr = Some pr' \<and>
            db' = db\<lparr> land_plots :=
                        land_plots db @
                          [\<lparr> lp_id = uuid_counter db, lp_block_id = b, lp_plot_number = n',
                             lp_area = a', lp_price = pr', lp_status = s, lp_description = d,
                             lp_created_at = now, lp_updated_at = now \<rparr>],
                      uuid_counter := Suc (uuid_counter db) \<rparr>"
  using assms
  by (auto simp: insert_land_plot_def uuid_generate_v4_def split: option.splits if_splits)

lemma apply_plots_frame:
  "apply_plots env now b ps db = Inr db'
   \<Longrightarrow> \<exists>np. db' = db\<lparr> land_plots := land_plots db @ np,
                       uuid_counter := uuid_counter db + length ps \<rparr>"
proof (induction ps arbitrary: db)
  case Nil
  then have "db' = db\<lparr> land_plots := land_plots db @ [],
                       uuid_counter := uuid_counter db + length ([]::jsonb list) \<rparr>"
    by simp
  then show ?case by blast
next
  case (Cons p ps)
  from Cons.prems obtain a db1 where
    i: "insert_land_plot now (Some b) (jsonb_field_text env p ''plot_number'') a
          (jsonb_field_text env p ''price'') (jsonb_field_text env p ''status'')
          (jsonb_field_text env p ''description'') db = Inr db1"
    and r: "apply_plots env now b ps db1 = Inr db'"
    by (auto split: sum.splits)
  from insert_land_plot_Inr [OF i] obtain row where
    d1: "db1 = db\<lparr> land_plots := land_plots db @ [row],
                    uuid_counter := Suc (uuid_counter db) \<rparr>"
    by blast
  from Cons.IH [OF r] obtain np where
    "db' = db1\<lparr> land_plots := land_plots db1 @ np,
                 uuid_counter := uuid_counter db1 + length ps \<rparr>"
    by blast
  then have "db' = db\<lparr> land_plots := land_plots db @ (row # np),
                       uuid_counter := uuid_counter db + length (p # ps) \<rparr>"
    by (simp add: d1)
  then show ?case by blast
qed

lemma apply_blocks_frame:
  "apply_blocks env now P bs db = Inr db'
   \<Longrightarrow> \<exists>nb np c. db' = db\<lparr> land_blocks := land_blocks db @ nb,
                            land_plots := land_plots db @ np,
                            uuid_counter := c \<rparr>"
proof (induction bs arbitrary: db)
  case Nil
  then have "db' = db\<lparr> land_blocks := land_blocks db @ [], land_plots := land_plots db @ [],
                       uuid_counter := uuid_counter db \<rparr>"
    by simp
  then show ?case by blast
next
  case (Cons b bs)
  from Cons.prems obtain i db1 ps db2 where
    ib: "insert_land_block now P (jsonb_field_text env b ''name'')
           (jsonb_field_text env b ''description'') db = Inr (i, db1)"
    and ap: "apply_plots env now i ps db1 = Inr db2"
    and r: "apply_blocks env now P bs db2 = Inr db'"
    by (auto split: sum.splits prod.splits)
  from insert_land_block_Inr [OF ib] obtain row where
    d1: "db1 = db\<lparr> land_blocks := land_blocks db @ [row],
                    uuid_counter := Suc (uuid_counter db) \<rparr>"
    by blast
  from apply_plots_frame [OF ap] obtain np1 where
    d2: "db2 = db1\<lparr> land_plots := land_plots db1 @ np1,
                     uuid_counter := uuid_counter db1 + length ps \<rparr>"
    by blast
  from Cons.IH [OF r] obtain nb np c where
    "db' = db2\<lparr> land_blocks := land_blocks db2 @ nb, land_plots := land_plots db2 @ np,
                 uuid_counter := c \<rparr>"
    by blast
  then have "db' = db\<lparr> land_blocks := land_blocks db @ (row # nb),
                       land_plots := land_plots db @ (np1 @ np), uuid_counter := c \<rparr>"
    by (simp add: d1 d2)
  then show ?case by blast
qed

lemma clear_property_inventory_configurations [simp]:
  "property_land_configurations (clear_property_inventory P db) = property_land_configurations db"
  by (simp add: clear_property_inventory_def)

lemma apply_Inr:
  assumes "apply_property_land_configuration env now cid db = Inr (r, db')"
  shows "r = True \<and> property_land_configurations db' = property_land_configurations db
         \<and> (\<exists>C. find (\<lambda>c. c_id c = cid \<and> c_is_active c = Some True)
                   (property_land_configurations db) = Some C)"
proof -
  from assms obtain C bs where
    f: "find (\<lambda>c. c_id c = cid \<and> c_is_active c = Some True)
          (property_land_configurations db) = Some C"
    and a: "apply_blocks env now (c_property_id C) bs
              (clear_property_inventory (c_property_id C) db) = Inr db'"
    and r: "r = True"
    by (auto simp: apply_property_land_configuration_def Let_def
        split: option.splits sum.splits)
  from apply_blocks_frame [OF a] have
    "property_land_configurations db' = property_land_configurations db"
    by auto
  with f r show ?thesis by simp
qed

text \<open>
  C1. \<^verbatim>\<open>apply_property_land_configuration\<close> raises \<^verbatim>\<open>'Configuration not found or not
  active'\<close> when no row of \<^verbatim>\<open>property_land_configurations\<close> has the identifier with the
  active flag true. An insert that fails while the payload is applied makes the function
  raise (nothing in it catches the error). And whenever the call raises anything, from the
  lookup, a delete or an insert, the database after the statement is the database before
  it.
\<close>

theorem apply_not_found_or_rolled_back:
  "((\<forall>c\<in>set (property_land_configurations db). c_id c = cid \<longrightarrow> c_is_active c \<noteq> Some True)
      \<longrightarrow> statement_atomic (apply_property_land_configuration env now cid) db
            = (Inl (raise_exception ''Configuration not found or not active''), db))
   \<and> (\<forall>C bs e.
        find (\<lambda>c. c_id c = cid \<and> c_is_active c = Some True) (property_land_configurations db)
          = Some C
        \<and> c_blocks_data C = JArr bs
        \<and> apply_blocks env now (c_property_id C) bs
            (clear_property_inventory (c_property_id C) db) = Inl e
        \<longrightarrow> statement_atomic (apply_property_land_configuration env now cid) db = (Inl e, db))
   \<and> (\<forall>e. fst (statement_atomic (apply_property_land_configuration env now cid) db) = Inl e
          \<longrightarrow> snd (statement_atomic (apply_property_land_configuration env now cid) db) = db)"
proof (intro conjI impI allI)
  assume "\<forall>c\<in>set (property_land_configurations db). c_id c = cid \<longrightarrow> c_is_active c \<noteq> Some True"
  then have "find (\<lambda>c. c_id c = cid \<and> c_is_active c = Some True)
               (property_land_configurations db) = None"
    by (auto simp: find_None_iff)
  then show "statement_atomic (apply_property_land_configuration env now cid) db
            = (Inl (raise_exception ''Configuration not found or not active''), db)"
    by (simp add: statement_atomic_def apply_property_land_configuration_def)
next
  fix C bs e
  assume "find (\<lambda>c. c_id c = cid \<and> c_is_active c = Some True)
            (property_land_configurations db) = Some C
        \<and> c_blocks_data C = JArr bs
        \<and> apply_blocks env now (c_property_id C) bs
            (clear_property_inventory (c_property_id C) db) = Inl e"
  then show "statement_atomic (apply_property_land_configuration env now cid) db = (Inl e, db)"
    by (simp add: statement_atomic_def apply_property_land_configuration_def
        jsonb_array_elements_def)
next
  fix e
  assume "fst (statement_atomic (apply_property_land_configuration env now cid) db) = Inl e"
  then show "snd (statement_atomic (apply_property_land_configuration env now cid) db) = db"
    by (auto simp: statement_atomic_def split: sum.splits)
qed

text \<open>The theorem at the inactive configuration 21, at the identifier 99 that no
  configuration has, and at the active configuration 20 of \<open>twin_inventory\<close>, where the
  second insert into \<^verbatim>\<open>land_blocks\<close> fails after the deletes and the first insert.\<close>

theorem apply_not_found_or_rolled_back_witness:
  "statement_atomic (apply_property_land_configuration digits_env 5 21) configured_inventory
     = (Inl (raise_exception ''Configuration not found or not active''), configured_inventory)
   \<and> statement_atomic (apply_property_land_configuration digits_env 5 99) configured_inventory
     = (Inl (raise_exception ''Configuration not found or not active''), configured_inventory)
   \<and> find (\<lambda>c. c_id c = 20 \<and> c_is_active c = Some True)
        (property_land_configurations twin_inventory)
     = Some (configuration_row 20 1 ''Master Plan'' twin_blocks_payload True)
   \<and> apply_blocks digits_env 5 (Some 1)
        [JObj [(''name'', JStr ''Block 1''), (''description'', JNull), (''plots'', JArr [])],
         JObj [(''name'', JStr ''Block 1''), (''description'', JNull), (''plots'', JArr [])]]
        (clear_property_inventory (Some 1) twin_inventory)
     = Inl unique_violation
   \<and> statement_atomic (apply_property_land_configuration digits_env 5 20) twin_inventory
     = (Inl unique_violation, twin_inventory)"
proof -
  let ?C = "configuration_row 20 1 ''Master Plan'' twin_blocks_payload True"
  let ?bs = "[JObj [(''name'', JStr ''Block 1''), (''description'', JNull), (''plots'', JArr [])],
              JObj [(''name'', JStr ''Block 1''), (''description'', JNull), (''plots'', JArr [])]]"
  have a: "\<forall>c\<in>set (property_land_configurations configured_inventory).
             c_id c = 21 \<longrightarrow> c_is_active c \<noteq> Some True"
    by (simp add: configured_inventory_def configuration_row_def)
  have b: "\<forall>c\<in>set (property_land_configurations configured_inventory).
             c_id c = 99 \<longrightarrow> c_is_active c \<noteq> Some True"
    by (simp add: configured_inventory_def configuration_row_def)
  have f: "find (\<lambda>c. c_id c = 20 \<and> c_is_active c = Some True)
             (property_land_configurations twin_inventory) = Some ?C"
    by (simp add: twin_inventory_def configuration_row_def)
  have p: "c_blocks_data ?C = JArr ?bs" "c_property_id ?C = Some 1"
    by (simp_all add: configuration_row_def twin_blocks_payload_def)
  have c: "apply_blocks digits_env 5 (Some 1) ?bs
             (clear_property_inventory (Some 1) twin_inventory) = Inl unique_violation"
    by code_simp
  have c': "apply_blocks digits_env 5 (c_property_id ?C) ?bs
             (clear_property_inventory (c_property_id ?C) twin_inventory) = Inl unique_violation"
    unfolding p(2) by (rule c)
  note at_21 = apply_not_found_or_rolled_back [of configured_inventory 21 digits_env 5,
      THEN conjunct1, THEN mp, OF a]
  note at_99 = apply_not_found_or_rolled_back [of configured_inventory 99 digits_env 5,
      THEN conjunct1, THEN mp, OF b]
  note at_20 = apply_not_found_or_rolled_back [of twin_inventory 20 digits_env 5,
      THEN conjunct2, THEN conjunct1, rule_format, OF conjI [OF f conjI [OF p(1) c']]]
  show ?thesis
    by (intro conjI at_21 at_99 f c at_20)
qed

lemma sql_eq_Some [simp]:
  "sql_eq a (Some x) = (a = Some x)" "sql_eq (Some x) b = (b = Some x)"
  by (auto simp: sql_eq_def split: option.splits)

lemma sql_eq_None [simp]: "sql_eq a None = False" "sql_eq None b = False"
  by (auto simp: sql_eq_def split: option.splits)










lemma apply_single_active:
  assumes ok: "apply_property_land_configuration env now cid db = Inr (r, db')"
      and one: "\<forall>P. length (active_configurations db P) \<le> 1"
  shows "property_land_configurations db' = property_land_configurations db
         \<and> (\<exists>C. find (\<lambda>c. c_id c = cid \<and> c_is_active c = Some True)
                   (property_land_configurations db') = Some C
               \<and> (\<forall>P. c_property_id C = Some P \<longrightarrow> active_configurations db' P = [C]))"
proof -
  from apply_Inr [OF ok] obtain C where
    same: "property_land_configurations db' = property_land_configurations db"
    and f: "find (\<lambda>c. c_id c = cid \<and> c_is_active c = Some True)
              (property_land_configurations db) = Some C"
    by blast
  from f have m: "C \<in> set (property_land_configurations db)" and act: "c_is_active C = Some True"
    by (auto simp: find_Some_iff in_set_conv_nth)
  have "active_configurations db P = [C]" if p: "c_property_id C = Some P" for P
  proof -
    from m act p have i: "C \<in> set (active_configurations db P)"
      by (simp add: active_configurations_def)
    from one have "length (active_configurations db P) \<le> 1" by blast
    with i show ?thesis
      by (cases "active_configurations db P") auto
  qed
  then have "\<forall>P. c_property_id C = Some P \<longrightarrow> active_configurations db' P = [C]"
    by (simp add: active_configurations_def same)
  with same f show ?thesis by simp
qed

text \<open>
  C9 (as amended). \<^verbatim>\<open>apply_property_land_configuration\<close> never writes the active flag.
  When it succeeds, no row of \<^verbatim>\<open>property_land_configurations\<close> has changed: the
  configuration it applied was active before the call and is active after it, and, where
  every property has at most one active configuration, it is the single active
  configuration of its property. On a configuration that is not active the call raises
  and the database stays as it was: nothing is activated.
\<close>

theorem apply_keeps_active_flags:
  "(\<forall>r db'. apply_property_land_configuration env now cid db = Inr (r, db')
              \<and> (\<forall>P. length (active_configurations db P) \<le> 1)
      \<longrightarrow> property_land_configurations db' = property_land_configurations db
          \<and> (\<exists>C. find (\<lambda>c. c_id c = cid \<and> c_is_active c = Some True)
                    (property_land_configurations db') = Some C
                \<and> (\<forall>P. c_property_id C = Some P \<longrightarrow> active_configurations db' P = [C])))
   \<and> ((\<forall>c\<in>set (property_land_configurations db). c_id c = cid \<longrightarrow> c_is_active c \<noteq> Some True)
      \<longrightarrow> statement_atomic (apply_property_land_configuration env now cid) db
            = (Inl (raise_exception ''Configuration not found or not active''), db))"
proof (rule conjI)
  show "\<forall>r db'. apply_property_land_configuration env now cid db = Inr (r, db')
              \<and> (\<forall>P. length (active_configurations db P) \<le> 1)
      \<longrightarrow> property_land_configurations db' = property_land_configurations db
          \<and> (\<exists>C. find (\<lambda>c. c_id c = cid \<and> c_is_active c = Some True)
                    (property_land_configurations db') = Some C
                \<and> (\<forall>P. c_property_id C = Some P \<longrightarrow> active_configurations db' P = [C]))"
  proof (intro allI impI)
    fix r db'
    assume h: "apply_property_land_configuration env now cid db = Inr (r, db')
               \<and> (\<forall>P. length (active_configurations db P) \<le> 1)"
    from apply_single_active [OF conjunct1 [OF h] conjunct2 [OF h]]
    show "property_land_configurations db' = property_land_configurations db
          \<and> (\<exists>C. find (\<lambda>c. c_id c = cid \<and> c_is_active c = Some True)
                    (property_land_configurations db') = Some C
                \<and> (\<forall>P. c_property_id C = Some P \<longrightarrow> active_configurations db' P = [C]))" .
  qed
next
  show "(\<forall>c\<in>set (property_land_configurations db). c_id c = cid \<longrightarrow> c_is_active c \<noteq> Some True)
      \<longrightarrow> statement_atomic (apply_property_land_configuration env now cid) db
            = (Inl (raise_exception ''Configuration not found or not active''), db)"
  proof (rule impI)
    assume "\<forall>c\<in>set (property_land_configurations db).
              c_id c = cid \<longrightarrow> c_is_active c \<noteq> Some True"
    then have "find (\<lambda>c. c_id c = cid \<and> c_is_active c = Some True)
                 (property_land_configurations db) = None"
      by (auto simp: find_None_iff)
    then show "statement_atomic (apply_property_land_configuration env now cid) db
              = (Inl (raise_exception ''Configuration not found or not active''), db)"
      by (simp add: statement_atomic_def apply_property_land_configuration_def)
  qed
qed

text \<open>The theorem at the active configuration 20 and at the inactive configuration 21 of
  \<open>configured_inventory\<close>.\<close>

theorem apply_keeps_active_flags_witness:
  "(\<forall>P. length (active_configurations configured_inventory P) \<le> 1)
   \<and> fst (statement_atomic (apply_property_land_configuration digits_env 5 20)
            configured_inventory) = Inr True
   \<and> map (\<lambda>c. (c_id c, c_is_active c))
       (property_land_configurations
          (snd (statement_atomic (apply_property_land_configuration digits_env 5 20)
                  configured_inventory)))
     = [(20, Some True), (21, Some False)]
   \<and> statement_atomic (apply_property_land_configuration digits_env 5 21) configured_inventory
     = (Inl (raise_exception ''Configuration not found or not active''), configured_inventory)"
proof -
  have a: "\<forall>P. length (active_configurations configured_inventory P) \<le> 1"
    by (simp add: active_configurations_def configured_inventory_def configuration_row_def)
  have b: "fst (statement_atomic (apply_property_land_configuration digits_env 5 20)
            configured_inventory) = Inr True"
    by code_simp
  then obtain db' where
    ok: "apply_property_land_configuration digits_env 5 20 configured_inventory
           = Inr (True, db')"
    by (auto simp: statement_atomic_def split: sum.splits)
  have i: "\<forall>c\<in>set (property_land_configurations configured_inventory).
             c_id c = 21 \<longrightarrow> c_is_active c \<noteq> Some True"
    by (simp add: configured_inventory_def configuration_row_def)
  note at_20 = apply_keeps_active_flags [of digits_env 5 20 configured_inventory,
      THEN conjunct1, THEN spec, THEN spec, THEN mp, OF conjI [OF ok a], THEN conjunct1]
  note at_21 = apply_keeps_active_flags [of digits_env 5 21 configured_inventory,
      THEN conjunct2, THEN mp, OF i]
  have s: "snd (statement_atomic (apply_property_land_configuration digits_env 5 20)
                  configured_inventory) = db'"
    by (simp add: statement_atomic_def ok)
  have "map (\<lambda>c. (c_id c, c_is_active c)) (property_land_configurations configured_inventory)
          = [(20, Some True), (21, Some False)]"
    by (simp add: configured_inventory_def configuration_row_def)
  then have c: "map (\<lambda>c. (c_id c, c_is_active c))
       (property_land_configurations
          (snd (statement_atomic (apply_property_land_configuration digits_env 5 20)
                  configured_inventory)))
     = [(20, Some True), (21, Some False)]"
    unfolding s at_20 .
  show ?thesis
    by (intro conjI a b c at_21)
qed

text \<open>The claim as the specification states it fails at a configuration that is not
  active: the call raises, and the configuration 21 is as inactive as before.\<close>

theorem apply_activates_counterexample:
  "statement_atomic (apply_property_land_configuration digits_env 5 21) configured_inventory
     = (Inl (raise_exception ''Configuration not found or not active''), configured_inventory)
   \<and> map (\<lambda>c. (c_id c, c_is_active c)) (property_land_configurations configured_inventory)
     = [(20, Some True), (21, Some False)]"
  by (simp add: statement_atomic_def apply_property_land_configuration_def
      configured_inventory_def configuration_row_def)

subsection \<open>The round trip of apply and save\<close>

lemma jsonb_text_to_jsonb_text [simp]: "jsonb_text env (to_jsonb_text s) = s"
  by (cases s) (simp_all add: jsonb_text_def to_jsonb_text_def)

lemma jsonb_text_scalar [simp]:
  "jsonb_text env (JStr s) = Some s" "jsonb_text env (JNum a) = Some (numeric_out env a)"
  by (simp_all add: jsonb_text_def)







text \<open>The snapshot writes its own form.\<close>

lemma is_text_or_null_to_jsonb_text [simp]: "is_text_or_null (to_jsonb_text s)"
  by (cases s) (simp_all add: is_text_or_null_def to_jsonb_text_def)




text \<open>\<^verbatim>\<open>GROUP BY\<close> gives one row for each key, so the join finds for a block at most one
  group, wherever it stands among the rows of \<open>plots_data\<close>.\<close>

lemma plots_data_keys: "distinct (map fst (plots_data env db))"
  by (simp add: plots_data_def o_def)











subsection \<open>The example instance of the input and output functions\<close>












end
